theory Spec2Isabelle
  imports Complex_Main "HOL-Library.Sublist"
begin

section \<open>Window titles\<close>

text \<open>
  Window titles are Python \<open>str\<close> values. They are modelled as \<open>string\<close>, read as
  sequences of code points below 256. On that range \<open>str.lower()\<close> maps \<open>A\<close>..\<open>Z\<close> and
  the accented capitals U+00C0..U+00DE (the multiplication sign U+00D7 apart) to the code
  point 32 higher, which is the same code point with bit 5 set, and leaves the rest alone.
\<close>

definition lower_char :: "char \<Rightarrow> char" where
  "lower_char c =
     (let n = (of_char c :: nat)
      in if (65 \<le> n \<and> n \<le> 90) \<or> (192 \<le> n \<and> n \<le> 222 \<and> n \<noteq> 215)
         then (case c of Char b0 b1 b2 b3 b4 b5 b6 b7 \<Rightarrow> Char b0 b1 b2 b3 b4 True b6 b7)
         else c)"

definition lower :: "string \<Rightarrow> string" where
  "lower s = map lower_char s"

text \<open>Python's \<open>sub in s\<close> on strings: \<open>sub\<close> occurs in \<open>s\<close> as a contiguous run.\<close>

fun str_contains :: "string \<Rightarrow> string \<Rightarrow> bool" where
  "str_contains sub [] = (sub = [])"
| "str_contains sub (c # cs) = (prefix sub (c # cs) \<or> str_contains sub cs)"

text \<open>
  The test written out in \<open>_select_best_default_target\<close> (and again in
  \<open>_save_persistent_state\<close>) on an already lowercased title:
  \<^verbatim>\<open>"2004scape game" in title and not any(b in title for b in ("chrome", "edge", ...))\<close>
\<close>

definition browser_brands :: "string list" where
  "browser_brands = [''chrome'', ''edge'', ''firefox'', ''brave'', ''opera'', ''vivaldi'']"

definition is_native_game_title :: "string \<Rightarrow> bool" where
  "is_native_game_title title =
     (str_contains ''2004scape game'' title \<and>
      \<not> list_ex (\<lambda>b. str_contains b title) browser_brands)"


section \<open>The operating system, as the code queries it\<close>

text \<open>
  Window handles are Python ints; 0 is the null handle. One value of \<open>win32\<close> is what the
  windowing system answers while one callback runs. A query that raises is \<open>None\<close>.
  \<open>GetParent\<close> answers 0 for a window without parent.
\<close>

record win32 =
  GetParent :: "int \<Rightarrow> int option"
  GetAncestor :: "int \<Rightarrow> int \<Rightarrow> int option"
  GetForegroundWindow :: "int option"
  WindowFromPoint :: "int \<times> int \<Rightarrow> int option"

datatype py_error = Win32Error

definition GA_ROOT :: int where
  "GA_ROOT = 2"

text \<open>
  The loop of \<open>hwnd_is_target_or_child\<close>:
  \<^verbatim>\<open>
    while cur:
        try: cur = win32gui.GetParent(cur)
        except Exception: break
        if cur == target_hwnd: return True
  \<close>
  \<open>Some True\<close> is the \<open>return True\<close> inside the loop, \<open>Some False\<close> is leaving the loop
  (at a null handle or by \<open>break\<close>), and \<open>None\<close> is a walk that never ends. The source
  puts no bound on the number of steps.
\<close>

partial_function (option) parent_walk :: "win32 \<Rightarrow> int \<Rightarrow> int \<Rightarrow> bool option" where
  "parent_walk os cur target =
     (if cur \<noteq> 0
      then (case GetParent os cur of
              None \<Rightarrow> Some False
            | Some p \<Rightarrow> if p = target then Some True else parent_walk os p target)
      else Some False)"

definition hwnd_is_target_or_child :: "win32 \<Rightarrow> int \<Rightarrow> int \<Rightarrow> bool option" where
  "hwnd_is_target_or_child os clicked_hwnd target =
     (if clicked_hwnd = 0 \<or> target = 0 then Some False
      else if clicked_hwnd = target then Some True
      else (case parent_walk os clicked_hwnd target of
              None \<Rightarrow> None
            | Some found \<Rightarrow>
                if found then Some True
                else (case GetAncestor os clicked_hwnd GA_ROOT of
                        None \<Rightarrow> Some False
                      | Some clicked_root \<Rightarrow>
                          (case GetAncestor os target GA_ROOT of
                             None \<Rightarrow> Some False
                           | Some target_root \<Rightarrow>
                               if clicked_root \<noteq> 0 \<and> target_root \<noteq> 0 \<and>
                                  clicked_root = target_root
                               then Some True else Some False))))"


subsection \<open>The hit tester as the specification words it\<close>

text \<open>
  The parent chain of a window: its parent, the parent of that, and so on, for as long as
  the window at hand is not null and the parent query answers.
  \<open>on_parent_chain os t c\<close>: \<open>t\<close> is met on the parent chain of \<open>c\<close>.
  \<open>chain_ends os c\<close>: the chain of \<open>c\<close> reaches the root (a null parent) or a failing
  query after finitely many steps.
\<close>

inductive on_parent_chain :: "win32 \<Rightarrow> int \<Rightarrow> int \<Rightarrow> bool" for os t where
  parent_is_target: "c \<noteq> 0 \<Longrightarrow> GetParent os c = Some t \<Longrightarrow> on_parent_chain os t c"
| further_up: "c \<noteq> 0 \<Longrightarrow> GetParent os c = Some p \<Longrightarrow> on_parent_chain os t p \<Longrightarrow>
               on_parent_chain os t c"

code_pred on_parent_chain .

inductive chain_ends :: "win32 \<Rightarrow> int \<Rightarrow> bool" for os where
  at_null: "chain_ends os 0"
| at_failure: "GetParent os c = None \<Longrightarrow> chain_ends os c"
| at_parent: "GetParent os c = Some p \<Longrightarrow> chain_ends os p \<Longrightarrow> chain_ends os c"

code_pred chain_ends .

text \<open>Both root ancestors resolve, to nonzero values, and are equal.\<close>

definition same_root_ancestor :: "win32 \<Rightarrow> int \<Rightarrow> int \<Rightarrow> bool" where
  "same_root_ancestor os c t =
     (GetAncestor os c GA_ROOT \<noteq> None \<and> GetAncestor os c GA_ROOT \<noteq> Some 0 \<and>
      GetAncestor os t GA_ROOT \<noteq> None \<and> GetAncestor os t GA_ROOT \<noteq> Some 0 \<and>
      GetAncestor os c GA_ROOT = GetAncestor os t GA_ROOT)"

text \<open>The reference algorithm, steps 2 to 5 of the specification's hit tester.\<close>

definition belongs_to_target_reference :: "win32 \<Rightarrow> int \<Rightarrow> int \<Rightarrow> bool" where
  "belongs_to_target_reference os c t =
     (if c = t then True
      else if on_parent_chain os t c then True
      else if same_root_ancestor os c t then True
      else False)"


section \<open>Timer model\<close>

record TimerConfig =
  length_seconds :: int
  threshold_seconds :: int
  count_below_zero :: bool
  sound_threshold_seconds :: int
  sound_file_rel :: string
  volume :: real

text \<open>
  \<open>time.time()\<close> is an input of each method, the argument \<open>now\<close>; Python floats are
  modelled by the reals. The lock makes every method body one atomic step, which is what a
  function on the state is.
\<close>

record ActivityTimer =
  config :: TimerConfig
  target_hwnd :: int
  last_activity_ts :: real

definition set_target_hwnd :: "int \<Rightarrow> ActivityTimer \<Rightarrow> ActivityTimer" where
  "set_target_hwnd hwnd timer = timer\<lparr>target_hwnd := (if hwnd \<noteq> 0 then hwnd else 0)\<rparr>"

definition reset_to_full :: "real \<Rightarrow> ActivityTimer \<Rightarrow> ActivityTimer" where
  "reset_to_full now timer = timer\<lparr>last_activity_ts := now\<rparr>"

definition note_activity :: "real \<Rightarrow> ActivityTimer \<Rightarrow> ActivityTimer" where
  "note_activity now timer = timer\<lparr>last_activity_ts := now\<rparr>"

text \<open>The method assigns to no field: the state comes back as it went in.\<close>

definition remaining_seconds :: "real \<Rightarrow> ActivityTimer \<Rightarrow> real \<times> ActivityTimer" where
  "remaining_seconds now timer =
     (let elapsed = now - last_activity_ts timer;
          remaining = real_of_int (length_seconds (config timer)) - elapsed
      in if \<not> count_below_zero (config timer)
         then (max 0 remaining, timer)
         else (remaining, timer))"


section \<open>Global hooks\<close>

text \<open>
  The two callbacks that \<open>InputHookController._run\<close> registers. \<open>on_key_press\<close> has no
  handler around the foreground query, so a raising query leaves the callback as an
  exception (\<open>Inl\<close>). \<open>on_click\<close> returns on a raising point query; its result is \<open>None\<close>
  only when the parent walk of the hit test never ends. The key and the button are unused.
\<close>

definition on_key_press :: "win32 \<Rightarrow> real \<Rightarrow> ActivityTimer \<Rightarrow> py_error + ActivityTimer" where
  "on_key_press os now timer =
     (let target = target_hwnd timer
      in if target = 0 then Inr timer
         else (case GetForegroundWindow os of
                 None \<Rightarrow> Inl Win32Error
               | Some fg \<Rightarrow> if fg = target then Inr (note_activity now timer) else Inr timer))"

definition on_click ::
  "win32 \<Rightarrow> real \<Rightarrow> int \<Rightarrow> int \<Rightarrow> bool \<Rightarrow> ActivityTimer \<Rightarrow> (py_error + ActivityTimer) option" where
  "on_click os now x y pressed timer =
     (if \<not> pressed then Some (Inr timer)
      else let target = target_hwnd timer
           in if target = 0 then Some (Inr timer)
              else (case WindowFromPoint os (x, y) of
                      None \<Rightarrow> Some (Inr timer)
                    | Some clicked_hwnd \<Rightarrow>
                        (case hwnd_is_target_or_child os clicked_hwnd target of
                           None \<Rightarrow> None
                         | Some hit \<Rightarrow>
                             if hit then Some (Inr (note_activity now timer))
                             else Some (Inr timer))))"

text \<open>
  The listeners are created with \<open>on_press=on_key_press\<close> and \<open>on_click=on_click\<close> only:
  key releases, mouse moves and wheel events have no callback.
\<close>

datatype input_event =
    KeyPress
  | KeyRelease
  | MouseClick int int bool
  | MouseMove int int
  | MouseScroll int int int int

fun listener_dispatch ::
  "win32 \<Rightarrow> real \<Rightarrow> input_event \<Rightarrow> ActivityTimer \<Rightarrow> (py_error + ActivityTimer) option" where
  "listener_dispatch os now KeyPress timer = Some (on_key_press os now timer)"
| "listener_dispatch os now (MouseClick x y pressed) timer = on_click os now x y pressed timer"
| "listener_dispatch os now KeyRelease timer = Some (Inr timer)"
| "listener_dispatch os now (MouseMove x y) timer = Some (Inr timer)"
| "listener_dispatch os now (MouseScroll x y dx dy) timer = Some (Inr timer)"

text \<open>
  A run of the observer: the events in the order their callbacks take effect, each with
  the answers of the windowing system and the clock reading at that moment. A callback
  that raises ends the run.
\<close>

fun observe ::
  "(win32 \<times> real \<times> input_event) list \<Rightarrow> ActivityTimer \<Rightarrow> (py_error + ActivityTimer) option" where
  "observe [] timer = Some (Inr timer)"
| "observe ((os, now, ev) # rest) timer =
     (case listener_dispatch os now ev timer of
        None \<Rightarrow> None
      | Some (Inl e) \<Rightarrow> Some (Inl e)
      | Some (Inr timer') \<Rightarrow> observe rest timer')"


section \<open>Target selection in the main window\<close>

text \<open>
  The window combo box, as far as the selection code uses it: the items (text and data, the
  data being the handle) and the current index, -1 when there is none. \<open>clear\<close> leaves no
  current item; adding the first item to an empty box makes it the current one.
\<close>

record QComboBox =
  items :: "(string \<times> int) list"
  currentIndex :: int

definition count_items :: "QComboBox \<Rightarrow> int" where
  "count_items cb = int (length (items cb))"

definition itemText :: "QComboBox \<Rightarrow> int \<Rightarrow> string" where
  "itemText cb i = (if 0 \<le> i \<and> i < count_items cb then fst (items cb ! nat i) else [])"

definition itemData :: "QComboBox \<Rightarrow> int \<Rightarrow> int option" where
  "itemData cb i = (if 0 \<le> i \<and> i < count_items cb then Some (snd (items cb ! nat i)) else None)"

definition currentData :: "QComboBox \<Rightarrow> int option" where
  "currentData cb = itemData cb (currentIndex cb)"

definition clear_items :: "QComboBox \<Rightarrow> QComboBox" where
  "clear_items cb = cb\<lparr>items := [], currentIndex := - 1\<rparr>"

definition addItem :: "string \<Rightarrow> int \<Rightarrow> QComboBox \<Rightarrow> QComboBox" where
  "addItem label data cb =
     cb\<lparr>items := items cb @ [(label, data)],
        currentIndex := (if items cb = [] then 0 else currentIndex cb)\<rparr>"

text \<open>\<^verbatim>\<open>int(data) if data else 0\<close> on the data of the current item.\<close>

definition hwnd_of_data :: "int option \<Rightarrow> int" where
  "hwnd_of_data d = (case d of None \<Rightarrow> 0 | Some h \<Rightarrow> if h \<noteq> 0 then h else 0)"

record MainWindow =
  window_combo :: QComboBox
  target_changed_connected :: bool
  preferred_window_hint :: "string option"
  sound_fired :: bool
  timer_model :: ActivityTimer

definition on_target_changed :: "real \<Rightarrow> MainWindow \<Rightarrow> MainWindow" where
  "on_target_changed now mw =
     (let hwnd = hwnd_of_data (currentData (window_combo mw))
      in mw\<lparr>timer_model := reset_to_full now (set_target_hwnd hwnd (timer_model mw)),
            sound_fired := False\<rparr>)"

text \<open>
  \<open>setCurrentIndex\<close> with signals unblocked: when the index changes,
  \<open>currentIndexChanged\<close> runs the connected slot \<open>_on_target_changed\<close> before the call
  returns.
\<close>

definition setCurrentIndex :: "real \<Rightarrow> int \<Rightarrow> MainWindow \<Rightarrow> MainWindow" where
  "setCurrentIndex now i mw =
     (let cb = window_combo mw;
          new_index = (if 0 \<le> i \<and> i < count_items cb then i else - 1);
          mw' = mw\<lparr>window_combo := cb\<lparr>currentIndex := new_index\<rparr>\<rparr>
      in if new_index \<noteq> currentIndex cb \<and> target_changed_connected mw
         then on_target_changed now mw' else mw')"

text \<open>
  Each \<^verbatim>\<open>for i in range(count): if ...: best_idx = i; break\<close> is \<open>find\<close> on the range
  of indices. \<open>preferred_window_hint\<close> is \<open>None\<close> while the attribute is not set, which
  \<open>getattr(self, "_preferred_window_hint", "")\<close> reads as the empty string.
\<close>

definition select_best_default_target :: "real \<Rightarrow> MainWindow \<Rightarrow> MainWindow" where
  "select_best_default_target now mw =
     (let cb = window_combo mw
      in if count_items cb = 0
         then mw\<lparr>timer_model := set_target_hwnd 0 (timer_model mw)\<rparr>
         else
           let indices = [0..<nat (count_items cb)];
               best1 = find (\<lambda>i. is_native_game_title (lower (itemText cb (int i)))) indices;
               hint = (case preferred_window_hint mw of None \<Rightarrow> [] | Some h \<Rightarrow> h);
               best2 = (if best1 = None \<and> hint \<noteq> []
                        then find (\<lambda>i. hint \<noteq> [] \<and>
                                        str_contains hint (lower (itemText cb (int i)))) indices
                        else best1);
               best3 = (if best2 = None
                        then find (\<lambda>i. str_contains ''2004scape game''
                                          (lower (itemText cb (int i)))) indices
                        else best2);
               best_idx = (case best3 of None \<Rightarrow> 0 | Some i \<Rightarrow> int i);
               mw1 = setCurrentIndex now best_idx mw;
               hwnd = hwnd_of_data (currentData (window_combo mw1))
           in mw1\<lparr>timer_model := set_target_hwnd hwnd (timer_model mw1)\<rparr>)"

text \<open>
  \<open>snapshot\<close> is what \<open>list_target_windows()\<close> returns during the refresh: pairs of handle
  and title. The combo box is emptied and filled with signals blocked, the slot is
  connected afresh, and the handle that was current before is looked up first.
\<close>

definition refresh_windows :: "real \<Rightarrow> (int \<times> string) list \<Rightarrow> MainWindow \<Rightarrow> MainWindow" where
  "refresh_windows now snapshot mw =
     (let current_hwnd = hwnd_of_data (currentData (window_combo mw));
          cb = fold (\<lambda>(hwnd, title) c. addItem title hwnd c) snapshot
                 (clear_items (window_combo mw));
          mw1 = mw\<lparr>window_combo := cb, target_changed_connected := True\<rparr>
      in case (if current_hwnd \<noteq> 0
               then find (\<lambda>i. itemData cb (int i) = Some current_hwnd)
                      [0..<nat (count_items cb)]
               else None) of
           Some i \<Rightarrow>
             (let mw2 = setCurrentIndex now (int i) mw1
              in mw2\<lparr>timer_model := set_target_hwnd current_hwnd (timer_model mw2)\<rparr>)
         | None \<Rightarrow> select_best_default_target now mw1)"

definition on_below_zero_changed :: "bool \<Rightarrow> MainWindow \<Rightarrow> MainWindow" where
  "on_below_zero_changed checked mw =
     mw\<lparr>timer_model := (timer_model mw)
           \<lparr>config := (config (timer_model mw))\<lparr>count_below_zero := checked\<rparr>\<rparr>\<rparr>"


section \<open>Concrete scenarios\<close>

text \<open>
  A desktop with five windows. 100 is the game's top-level window, 110 a dialog whose
  parent is 100, 120 a render surface without parent whose root ancestor is 100, 200 an
  unrelated top-level window, and 300 a window that has just closed, on which every query
  raises. The game window has the focus. The point query raises at negative coordinates.
\<close>

definition example_desktop :: win32 where
  "example_desktop =
     \<lparr>GetParent = (\<lambda>h. if h = 110 then Some 100
                          else if h = 100 \<or> h = 120 \<or> h = 200 then Some 0
                          else None),
      GetAncestor = (\<lambda>h flag. if flag = 2 \<and> (h = 100 \<or> h = 110 \<or> h = 120) then Some 100
                               else if flag = 2 \<and> h = 200 then Some 200
                               else None),
      GetForegroundWindow = Some 100,
      WindowFromPoint = (\<lambda>(x, y). if x < 0 \<or> y < 0 then None
                                     else if x < 50 then Some 110
                                     else if x < 400 then Some 100
                                     else Some 200)\<rparr>"

definition example_config :: TimerConfig where
  "example_config =
     \<lparr>length_seconds = 90, threshold_seconds = 15, count_below_zero = True,
      sound_threshold_seconds = 15, sound_file_rel = [], volume = 1 / 2\<rparr>"

definition example_timer :: "int \<Rightarrow> real \<Rightarrow> ActivityTimer" where
  "example_timer h ts = \<lparr>config = example_config, target_hwnd = h, last_activity_ts = ts\<rparr>"

text \<open>
  A directory with the game's own window and a browser tab showing the game, in the order
  \<open>list_target_windows\<close> sorts them, and a main window whose combo box holds one item,
  which is the current one.
\<close>

definition example_snapshot :: "(int \<times> string) list" where
  "example_snapshot = [(100, ''2004Scape Game''), (200, ''2004Scape Game - Google Chrome'')]"

definition example_window :: "string \<Rightarrow> int \<Rightarrow> MainWindow" where
  "example_window title h =
     \<lparr>window_combo = \<lparr>items = [(title, h)], currentIndex = 0\<rparr>,
      target_changed_connected = True,
      preferred_window_hint = Some ''2004scape game'',
      sound_fired = False,
      timer_model = example_timer h 0\<rparr>"


section \<open>The timer\<close>

text \<open>
  C8. \<open>reset_to_full\<close> and \<open>note_activity\<close> give the same state from every state and
  at every instant: the state with the last-activity timestamp set to the current instant,
  the configuration and the target handle as they were.
\<close>

theorem reset_to_full_is_note_activity:
  "reset_to_full now timer = note_activity now timer \<and>
   reset_to_full now timer = timer\<lparr>last_activity_ts := now\<rparr> \<and>
   last_activity_ts (reset_to_full now timer) = now \<and>
   config (reset_to_full now timer) = config timer \<and>
   target_hwnd (reset_to_full now timer) = target_hwnd timer"
  by (simp add: reset_to_full_def note_activity_def)

text \<open>
  C9. \<open>set_target_hwnd h\<close> writes the target-handle field and nothing else: the stored
  handle is \<open>h\<close> (which is \<open>int(h)\<close> for a nonzero \<open>h\<close> and 0 otherwise), the last-activity
  timestamp and the configuration are unchanged, and so is the remaining time read at any
  instant.
\<close>

theorem set_target_hwnd_frame:
  "set_target_hwnd h timer = timer\<lparr>target_hwnd := (if h \<noteq> 0 then h else 0)\<rparr> \<and>
   target_hwnd (set_target_hwnd h timer) = h \<and>
   last_activity_ts (set_target_hwnd h timer) = last_activity_ts timer \<and>
   config (set_target_hwnd h timer) = config timer \<and>
   fst (remaining_seconds now (set_target_hwnd h timer)) = fst (remaining_seconds now timer)"
  by (simp add: set_target_hwnd_def remaining_seconds_def Let_def)

text \<open>
  C3. With length \<open>L\<close>, stored timestamp \<open>ts\<close> and read instant \<open>now\<close>,
  \<open>remaining_seconds\<close> returns \<open>L - (now - ts)\<close> when \<open>count_below_zero\<close> is set and
  \<open>max 0 (L - (now - ts))\<close> when it is not, and leaves the state as it was. Hence after
  the flag is switched off, a clamped read taken (which is never negative) and the flag
  switched on again, a read at \<open>now'\<close> returns \<open>L - (now' - ts)\<close> for the timestamp that
  was stored before all of this. This holds at every instant, those with \<open>ts \<le> now\<close> among
  them.
\<close>

theorem remaining_seconds_lazy_clamp:
  "fst (remaining_seconds now timer) =
     (if count_below_zero (config timer)
      then real_of_int (length_seconds (config timer)) - (now - last_activity_ts timer)
      else max 0 (real_of_int (length_seconds (config timer)) - (now - last_activity_ts timer))) \<and>
   snd (remaining_seconds now timer) = timer \<and>
   0 \<le> fst (remaining_seconds now (timer_model (on_below_zero_changed False mw))) \<and>
   fst (remaining_seconds now'
         (timer_model (on_below_zero_changed True
            ((on_below_zero_changed False mw)
               \<lparr>timer_model :=
                  snd (remaining_seconds now (timer_model (on_below_zero_changed False mw)))\<rparr>)))) =
     real_of_int (length_seconds (config (timer_model mw))) -
       (now' - last_activity_ts (timer_model mw))"
  by (simp add: remaining_seconds_def on_below_zero_changed_def Let_def)

text \<open>
  Length 90, last activity at 0: the read at 95 is -5; with the flag off it is 0; with the
  flag on again the read at 97 is -7.
\<close>

theorem remaining_seconds_lazy_clamp_witness:
  "fst (remaining_seconds 95 (example_timer 100 0)) = - 5 \<and>
   snd (remaining_seconds 95 (example_timer 100 0)) = example_timer 100 0 \<and>
   fst (remaining_seconds 95
         (timer_model (on_below_zero_changed False (example_window ''2004Scape Game'' 100)))) = 0 \<and>
   fst (remaining_seconds 97
         (timer_model (on_below_zero_changed True
            ((on_below_zero_changed False (example_window ''2004Scape Game'' 100))
               \<lparr>timer_model :=
                  snd (remaining_seconds 95
                        (timer_model (on_below_zero_changed False
                           (example_window ''2004Scape Game'' 100))))\<rparr>)))) = - 7"
  using remaining_seconds_lazy_clamp [where now = 95 and timer = "example_timer 100 0"
          and mw = "example_window ''2004Scape Game'' 100" and now' = 97]
    remaining_seconds_lazy_clamp [where now = 95
          and timer = "timer_model (on_below_zero_changed False
                         (example_window ''2004Scape Game'' 100))"
          and mw = "example_window ''2004Scape Game'' 100" and now' = 97]
  by (simp add: example_timer_def example_config_def example_window_def on_below_zero_changed_def)


section \<open>The hit tester\<close>

text \<open>
  When the parent chain of the start window ends, the walk returns, and it returns whether
  the target was met on the chain.
\<close>

lemma parent_walk_returns:
  "chain_ends os c \<Longrightarrow> t \<noteq> 0 \<Longrightarrow> parent_walk os c t = Some (on_parent_chain os t c)"
proof (induction rule: chain_ends.induct)
  case at_null
  have "\<not> on_parent_chain os t 0"
    by (auto elim: on_parent_chain.cases)
  then show ?case
    by (subst parent_walk.simps) simp
next
  case (at_failure c)
  then have "\<not> on_parent_chain os t c"
    by (auto elim: on_parent_chain.cases)
  with at_failure show ?case
    by (subst parent_walk.simps) simp
next
  case (at_parent c p)
  show ?case
  proof (cases "c = 0")
    case True
    have "\<not> on_parent_chain os t 0"
      by (auto elim: on_parent_chain.cases)
    with True show ?thesis
      by (subst parent_walk.simps) simp
  next
    case nz: False
    show ?thesis
    proof (cases "p = t")
      case True
      with nz at_parent.hyps(1) have "on_parent_chain os t c"
        by (auto intro: on_parent_chain.parent_is_target)
      with nz True at_parent.hyps(1) show ?thesis
        by (subst parent_walk.simps) simp
    next
      case False
      have "on_parent_chain os t c = on_parent_chain os t p"
      proof
        assume "on_parent_chain os t c"
        then show "on_parent_chain os t p"
          using at_parent.hyps(1) False by (auto elim: on_parent_chain.cases)
      next
        assume "on_parent_chain os t p"
        then show "on_parent_chain os t c"
          using nz at_parent.hyps(1) by (rule_tac on_parent_chain.further_up)
      qed
      with nz False at_parent.hyps(1) at_parent.IH [OF at_parent.prems] show ?thesis
        by (subst parent_walk.simps) simp
    qed
  qed
qed

lemma hwnd_is_target_or_child_returns:
  assumes "chain_ends os c"
  shows "hwnd_is_target_or_child os c t =
           Some (c \<noteq> 0 \<and> t \<noteq> 0 \<and> belongs_to_target_reference os c t)"
proof (cases "c = 0 \<or> t = 0")
  case True
  then show ?thesis by (auto simp: hwnd_is_target_or_child_def)
next
  case False
  then have w: "parent_walk os c t = Some (on_parent_chain os t c)"
    using assms parent_walk_returns by simp
  show ?thesis
    using False
    by (auto simp: hwnd_is_target_or_child_def w belongs_to_target_reference_def
          same_root_ancestor_def split: option.splits)
qed

text \<open>Every parent chain of the example desktop ends.\<close>

lemma chain_ends_example: "chain_ends example_desktop h"
proof -
  have z: "chain_ends example_desktop 0" by (rule chain_ends.at_null)
  have "GetParent example_desktop h = None \<or> GetParent example_desktop h = Some 0 \<or>
        (h = 110 \<and> GetParent example_desktop h = Some 100)"
    by (simp add: example_desktop_def)
  moreover have "chain_ends example_desktop 100"
    by (rule chain_ends.at_parent [OF _ z]) (simp add: example_desktop_def)
  ultimately show ?thesis
    using z by (auto intro: chain_ends.intros)
qed

text \<open>
  C4. For a clicked window \<open>c\<close> and a target window \<open>t\<close> (both handles nonzero) whose
  parent chain from \<open>c\<close> ends at the root or at a failing parent query,
  \<open>hwnd_is_target_or_child\<close> returns, and returns what the reference algorithm says: true
  if \<open>c\<close> is \<open>t\<close>, else true if \<open>t\<close> is on the parent chain of \<open>c\<close>, else true if the root
  ancestors of both resolve to nonzero values and are equal, else false.
\<close>

theorem hit_tester_refines_reference:
  "c \<noteq> 0 \<Longrightarrow> t \<noteq> 0 \<Longrightarrow> chain_ends os c \<Longrightarrow>
   hwnd_is_target_or_child os c t = Some (belongs_to_target_reference os c t)"
  by (simp add: hwnd_is_target_or_child_returns)

text \<open>
  On the example desktop with target 100: the dialog 110 belongs to it by the parent
  chain, the render surface 120 by the root ancestor, the unrelated window 200 does not.
\<close>

theorem hit_tester_refines_reference_witness:
  "(110::int) \<noteq> 0 \<and> (100::int) \<noteq> 0 \<and> chain_ends example_desktop 110 \<and>
   hwnd_is_target_or_child example_desktop 110 100 = Some True \<and>
   belongs_to_target_reference example_desktop 110 100 \<and>
   chain_ends example_desktop 120 \<and>
   hwnd_is_target_or_child example_desktop 120 100 = Some True \<and>
   belongs_to_target_reference example_desktop 120 100 \<and>
   chain_ends example_desktop 200 \<and>
   hwnd_is_target_or_child example_desktop 200 100 = Some False \<and>
   \<not> belongs_to_target_reference example_desktop 200 100"
proof -
  have a: "hwnd_is_target_or_child example_desktop 110 100 = Some True"
    by (simp add: hwnd_is_target_or_child_def parent_walk.simps example_desktop_def)
  have b: "hwnd_is_target_or_child example_desktop 120 100 = Some True"
    by (simp add: hwnd_is_target_or_child_def parent_walk.simps example_desktop_def GA_ROOT_def)
  have c: "hwnd_is_target_or_child example_desktop 200 100 = Some False"
    by (simp add: hwnd_is_target_or_child_def parent_walk.simps example_desktop_def GA_ROOT_def)
  show ?thesis
    using hit_tester_refines_reference [of 110 100 example_desktop]
      hit_tester_refines_reference [of 120 100 example_desktop]
      hit_tester_refines_reference [of 200 100 example_desktop]
      chain_ends_example a b c
    by simp
qed

text \<open>
  C10. \<open>hwnd_is_target_or_child\<close> returns false whenever the clicked handle or the target
  handle is zero, also when both are zero and so equal.
\<close>

theorem hwnd_is_target_or_child_null:
  "clicked_hwnd = 0 \<or> target = 0 \<Longrightarrow>
   hwnd_is_target_or_child os clicked_hwnd target = Some False"
  by (simp add: hwnd_is_target_or_child_def)

theorem hwnd_is_target_or_child_null_witness:
  "hwnd_is_target_or_child example_desktop 0 0 = Some False \<and>
   hwnd_is_target_or_child example_desktop 0 100 = Some False \<and>
   hwnd_is_target_or_child example_desktop 100 0 = Some False \<and>
   hwnd_is_target_or_child example_desktop 100 100 = Some True"
  using hwnd_is_target_or_child_null [of 0 0 example_desktop]
    hwnd_is_target_or_child_null [of 0 100 example_desktop]
    hwnd_is_target_or_child_null [of 100 0 example_desktop]
  by (simp add: hwnd_is_target_or_child_def)


section \<open>The input observer\<close>

text \<open>
  C5. A key press makes the observer call \<open>note_activity\<close> exactly when the target
  handle is nonzero and the foreground query, made while the event is handled, answers the
  target handle. In every other case the timer is as it was; in particular when the
  foreground window is another one. (Should the foreground query itself raise, no call is
  made and the exception leaves the callback.)
\<close>

theorem on_key_press_attribution:
  "on_key_press os now timer =
     (if target_hwnd timer \<noteq> 0 \<and> GetForegroundWindow os = Some (target_hwnd timer)
      then Inr (note_activity now timer)
      else if target_hwnd timer \<noteq> 0 \<and> GetForegroundWindow os = None
      then Inl Win32Error
      else Inr timer) \<and>
   (GetForegroundWindow os = Some fg \<and> fg \<noteq> target_hwnd timer \<longrightarrow>
      on_key_press os now timer = Inr timer)"
  by (auto simp: on_key_press_def Let_def split: option.splits)

text \<open>
  The game window 100 has the focus: a key press counts for target 100, and does not for
  target 200 or for no target.
\<close>

theorem on_key_press_attribution_witness:
  "on_key_press example_desktop 7 (example_timer 100 0) = Inr (example_timer 100 7) \<and>
   GetForegroundWindow example_desktop = Some 100 \<and>
   (100::int) \<noteq> target_hwnd (example_timer 200 0) \<and>
   on_key_press example_desktop 7 (example_timer 200 0) = Inr (example_timer 200 0) \<and>
   on_key_press example_desktop 7 (example_timer 0 0) = Inr (example_timer 0 0)"
  using on_key_press_attribution [of example_desktop 7 "example_timer 100 0" 100]
    on_key_press_attribution [of example_desktop 7 "example_timer 200 0" 100]
    on_key_press_attribution [of example_desktop 7 "example_timer 0 0" 100]
  by (simp add: example_desktop_def example_timer_def note_activity_def)

text \<open>
  C6. A mouse-button event makes the observer call \<open>note_activity\<close> exactly when it is a
  press, the target handle is nonzero, the point query answers a window, and the hit
  tester returns true for that window. When the point query raises, the callback returns
  normally with the timer as it was. The parent chain of the window under the point is
  taken to end, so that the hit test returns.
\<close>

theorem on_click_attribution:
  assumes "\<forall>w. WindowFromPoint os (x, y) = Some w \<longrightarrow> chain_ends os w"
  shows "on_click os now x y pressed timer =
           Some (Inr (if pressed \<and> target_hwnd timer \<noteq> 0 \<and>
                         (case WindowFromPoint os (x, y) of
                            None \<Rightarrow> False
                          | Some w \<Rightarrow> hwnd_is_target_or_child os w (target_hwnd timer) = Some True)
                      then note_activity now timer else timer)) \<and>
         (WindowFromPoint os (x, y) = None \<longrightarrow>
            on_click os now x y pressed timer = Some (Inr timer))"
  using assms
  by (auto simp: on_click_def Let_def hwnd_is_target_or_child_returns split: option.splits)

text \<open>
  Target 100: a press on the dialog 110 counts; a release there, a press on the unrelated
  window 200, and a press where the point query raises leave the timer alone.
\<close>

theorem on_click_attribution_witness:
  "WindowFromPoint example_desktop (10, 10) = Some 110 \<and> chain_ends example_desktop 110 \<and>
   on_click example_desktop 7 10 10 True (example_timer 100 0) = Some (Inr (example_timer 100 7)) \<and>
   on_click example_desktop 7 10 10 False (example_timer 100 0) = Some (Inr (example_timer 100 0)) \<and>
   on_click example_desktop 7 500 10 True (example_timer 100 0) = Some (Inr (example_timer 100 0)) \<and>
   WindowFromPoint example_desktop (- 1, 10) = None \<and>
   on_click example_desktop 7 (- 1) 10 True (example_timer 100 0) = Some (Inr (example_timer 100 0))"
proof -
  have a: "hwnd_is_target_or_child example_desktop 110 100 = Some True"
    by (simp add: hwnd_is_target_or_child_def parent_walk.simps example_desktop_def)
  have c: "hwnd_is_target_or_child example_desktop 200 100 = Some False"
    by (simp add: hwnd_is_target_or_child_def parent_walk.simps example_desktop_def GA_ROOT_def)
  have p1: "WindowFromPoint example_desktop (10, 10) = Some 110"
    and p2: "WindowFromPoint example_desktop (500, 10) = Some 200"
    and p3: "WindowFromPoint example_desktop (- 1, 10) = None"
    by (simp_all add: example_desktop_def)
  have t: "target_hwnd (example_timer 100 0) = 100"
    and n: "note_activity 7 (example_timer 100 0) = example_timer 100 7"
    by (simp_all add: example_timer_def note_activity_def)
  show ?thesis
    using on_click_attribution [of example_desktop 10 10 7 True "example_timer 100 0"]
      on_click_attribution [of example_desktop 10 10 7 False "example_timer 100 0"]
      on_click_attribution [of example_desktop 500 10 7 True "example_timer 100 0"]
      on_click_attribution [of example_desktop "- 1" 10 7 True "example_timer 100 0"]
      chain_ends_example
    by (simp add: a c p1 p2 p3 t n)
qed

text \<open>
  With no target, every single event leaves the timer as it was.
\<close>

lemma listener_dispatch_zero_target:
  "target_hwnd timer = 0 \<Longrightarrow> listener_dispatch os now ev timer = Some (Inr timer)"
  by (cases ev) (simp_all add: on_key_press_def on_click_def)

text \<open>
  C7. While the stored target handle is zero, no run of input events, of whatever kinds and
  whatever the windowing system answers, changes the timer: the run ends normally with
  the timer, and so its last-activity timestamp, as it was.
\<close>

theorem zero_target_suspends:
  "target_hwnd timer = 0 \<Longrightarrow> observe evs timer = Some (Inr timer)"
proof (induction evs)
  case Nil
  show ?case by simp
next
  case (Cons e evs)
  obtain os now ev where e: "e = (os, now, ev)"
    by (cases e) auto
  show ?case
    using Cons by (simp add: e listener_dispatch_zero_target)
qed

text \<open>
  The same key press that counts for target 100 does nothing while the target is zero.
\<close>

theorem zero_target_suspends_witness:
  "target_hwnd (example_timer 0 0) = 0 \<and>
   observe [(example_desktop, 1, KeyPress), (example_desktop, 2, MouseClick 10 10 True),
            (example_desktop, 3, KeyRelease), (example_desktop, 4, MouseClick 100 10 False),
            (example_desktop, 5, MouseMove 100 10)] (example_timer 0 0)
     = Some (Inr (example_timer 0 0)) \<and>
   observe [(example_desktop, 1, KeyPress)] (example_timer 100 0) = Some (Inr (example_timer 100 1))"
  using zero_target_suspends [of "example_timer 0 0"
          "[(example_desktop, 1, KeyPress), (example_desktop, 2, MouseClick 10 10 True),
            (example_desktop, 3, KeyRelease), (example_desktop, 4, MouseClick 100 10 False),
            (example_desktop, 5, MouseMove 100 10)]"]
  by (simp add: example_timer_def on_key_press_def example_desktop_def note_activity_def)


section \<open>Target resolution\<close>

text \<open>
  The combo box after \<open>clear\<close> and the \<open>addItem\<close> loop holds the snapshot's windows in
  order; its first item, if any, is the current one.
\<close>

lemma fold_addItem:
  "fold (\<lambda>(hwnd, title) c. addItem title hwnd c) snapshot cb =
     cb\<lparr>items := items cb @ map (\<lambda>(hwnd, title). (title, hwnd)) snapshot,
        currentIndex := (if items cb = [] \<and> snapshot \<noteq> [] then 0 else currentIndex cb)\<rparr>"
proof (induction snapshot arbitrary: cb)
  case Nil
  show ?case by simp
next
  case (Cons w ws)
  obtain h t where w: "w = (h, t)" by (cases w) auto
  show ?case
    by (simp add: w Cons.IH) (simp add: addItem_def)
qed

lemma refilled_combo:
  "fold (\<lambda>(hwnd, title) c. addItem title hwnd c) snapshot (clear_items cb0) =
     cb0\<lparr>items := map (\<lambda>(hwnd, title). (title, hwnd)) snapshot,
         currentIndex := (if snapshot = [] then - 1 else 0)\<rparr>"
  by (simp add: fold_addItem clear_items_def)

lemma setCurrentIndex_combo:
  "window_combo (setCurrentIndex now i mw) =
     (window_combo mw)\<lparr>currentIndex :=
        (if 0 \<le> i \<and> i < count_items (window_combo mw) then i else - 1)\<rparr>"
  by (simp add: setCurrentIndex_def Let_def on_target_changed_def)

lemma find_upt_Some:
  "find P [0..<n] = Some i \<longleftrightarrow> i < n \<and> P i \<and> (\<forall>j<i. \<not> P j)"
  by (auto simp: find_Some_iff)

lemma find_upt_None:
  "find P [0..<n] = None \<longleftrightarrow> (\<forall>i<n. \<not> P i)"
  by (auto simp: find_None_iff)

lemma hwnd_of_data_Some: "hwnd_of_data (Some h) = h"
  by (simp add: hwnd_of_data_def)

lemma itemData_refilled:
  "i < length snapshot \<Longrightarrow>
   itemData (cb0\<lparr>items := map (\<lambda>(hwnd, title). (title, hwnd)) snapshot, currentIndex := k\<rparr>) (int i)
     = Some (fst (snapshot ! i))"
  by (simp add: itemData_def count_items_def split_beta)

lemma itemText_refilled:
  "i < length snapshot \<Longrightarrow>
   itemText (cb0\<lparr>items := map (\<lambda>(hwnd, title). (title, hwnd)) snapshot, currentIndex := k\<rparr>) (int i)
     = snd (snapshot ! i)"
  by (simp add: itemText_def count_items_def split_beta)

text \<open>Evaluation on the two example titles and the two-item index range.\<close>

lemma upt_two: "[0..<2] = [0, Suc 0]"
  by (simp add: upt_rec)

lemma native_title_example:
  "is_native_game_title (lower ''2004Scape Game'') \<and>
   \<not> is_native_game_title (lower ''2004Scape Game - Google Chrome'')"
  by (simp add: is_native_game_title_def lower_def lower_char_def browser_brands_def)

text \<open>
  C2. When the handle that was selected before the refresh is set (nonzero) and still
  present in the snapshot, the refresh keeps it: it is the target handle afterwards and
  the data of the combo box's current item, whatever the titles of the other windows.
\<close>

theorem refresh_windows_sticky:
  assumes prev: "prev = hwnd_of_data (currentData (window_combo mw))"
    and nz: "prev \<noteq> 0"
    and present: "prev \<in> fst ` set snapshot"
  shows "target_hwnd (timer_model (refresh_windows now snapshot mw)) = prev \<and>
         currentData (window_combo (refresh_windows now snapshot mw)) = Some prev \<and>
         items (window_combo (refresh_windows now snapshot mw)) =
           map (\<lambda>(hwnd, title). (title, hwnd)) snapshot"
proof -
  let ?its = "map (\<lambda>(hwnd, title). (title, hwnd)) snapshot"
  let ?cb = "(window_combo mw)\<lparr>items := ?its, currentIndex := 0\<rparr>"
  let ?mw1 = "mw\<lparr>window_combo := ?cb, target_changed_connected := True\<rparr>"
  let ?P = "\<lambda>i. itemData ?cb (int i) = Some prev"
  have n: "nat (count_items ?cb) = length snapshot"
    by (simp add: count_items_def)
  have ne: "snapshot \<noteq> []" using present by auto
  from present obtain k where k: "k < length snapshot" "fst (snapshot ! k) = prev"
    by (auto simp: in_set_conv_nth)
  then have "?P k" by (simp add: itemData_refilled)
  with k have "find ?P [0..<length snapshot] \<noteq> None"
    by (auto simp: find_upt_None)
  then obtain i where i: "find ?P [0..<length snapshot] = Some i" by auto
  then have il: "i < length snapshot" and iP: "?P i"
    by (auto simp: find_upt_Some)
  have r: "refresh_windows now snapshot mw =
             (setCurrentIndex now (int i) ?mw1)
               \<lparr>timer_model := set_target_hwnd prev (timer_model (setCurrentIndex now (int i) ?mw1))\<rparr>"
    using nz i ne by (simp add: refresh_windows_def refilled_combo prev [symmetric] n Let_def)
  have c: "window_combo (refresh_windows now snapshot mw) = ?cb\<lparr>currentIndex := int i\<rparr>"
    using il by (simp add: r setCurrentIndex_combo count_items_def)
  have "currentData (?cb\<lparr>currentIndex := int i\<rparr>) = Some prev"
    using iP il by (simp add: currentData_def itemData_def count_items_def)
  then show ?thesis
    by (simp add: c) (simp add: r set_target_hwnd_def)
qed

text \<open>
  The browser tab 200 was selected; the snapshot also holds the game's own window 100,
  whose title has the marker and no browser brand. The refresh keeps 200.
\<close>

theorem refresh_windows_sticky_witness:
  "hwnd_of_data (currentData (window_combo
      (example_window ''2004Scape Game - Google Chrome'' 200))) = 200 \<and>
   (200::int) \<noteq> 0 \<and> 200 \<in> fst ` set example_snapshot \<and>
   is_native_game_title (lower (snd (example_snapshot ! 0))) \<and>
   target_hwnd (timer_model (refresh_windows 5 example_snapshot
      (example_window ''2004Scape Game - Google Chrome'' 200))) = 200 \<and>
   currentData (window_combo (refresh_windows 5 example_snapshot
      (example_window ''2004Scape Game - Google Chrome'' 200))) = Some 200"
proof -
  have p: "hwnd_of_data (currentData (window_combo
             (example_window ''2004Scape Game - Google Chrome'' 200))) = 200"
    by (simp add: example_window_def currentData_def itemData_def count_items_def hwnd_of_data_def)
  have q: "200 \<in> fst ` set example_snapshot"
    by (simp add: example_snapshot_def)
  have n: "is_native_game_title (lower (snd (example_snapshot ! 0)))"
    using native_title_example by (simp add: example_snapshot_def)
  show ?thesis
    using refresh_windows_sticky [of 200 "example_window ''2004Scape Game - Google Chrome'' 200"
            example_snapshot 5] p q n
    by simp
qed

text \<open>
  C1, as amended. When the snapshot holds a window whose lowercased title contains
  \<open>2004scape game\<close> and no browser brand, and the handle selected before the refresh is
  unset or no longer in the snapshot, the refresh selects the first such window: it is
  the combo box's current item and its handle is the target handle.
\<close>

theorem refresh_selects_native_game_window:
  assumes native: "\<exists>w\<in>set snapshot. is_native_game_title (lower (snd w))"
    and gone: "hwnd_of_data (currentData (window_combo mw)) = 0 \<or>
               hwnd_of_data (currentData (window_combo mw)) \<notin> fst ` set snapshot"
  shows "\<exists>i<length snapshot.
           is_native_game_title (lower (snd (snapshot ! i))) \<and>
           (\<forall>j<i. \<not> is_native_game_title (lower (snd (snapshot ! j)))) \<and>
           currentIndex (window_combo (refresh_windows now snapshot mw)) = int i \<and>
           target_hwnd (timer_model (refresh_windows now snapshot mw)) = fst (snapshot ! i)"
proof -
  let ?prev = "hwnd_of_data (currentData (window_combo mw))"
  let ?its = "map (\<lambda>(hwnd, title). (title, hwnd)) snapshot"
  let ?cb = "(window_combo mw)\<lparr>items := ?its, currentIndex := 0\<rparr>"
  let ?mw1 = "mw\<lparr>window_combo := ?cb, target_changed_connected := True\<rparr>"
  let ?N = "\<lambda>i. is_native_game_title (lower (itemText ?cb (int i)))"
  have n: "nat (count_items ?cb) = length snapshot"
    by (simp add: count_items_def)
  have ne: "snapshot \<noteq> []" using native by auto
  have r: "refresh_windows now snapshot mw = select_best_default_target now ?mw1"
  proof (cases "?prev = 0")
    case True
    then show ?thesis
      using ne by (simp add: refresh_windows_def refilled_combo n Let_def)
  next
    case False
    with gone have "?prev \<notin> fst ` set snapshot" by simp
    then have "\<forall>i<length snapshot. fst (snapshot ! i) \<noteq> ?prev"
      by (metis image_eqI nth_mem)
    then have "\<forall>i<length snapshot. itemData ?cb (int i) \<noteq> Some ?prev"
      by (simp add: itemData_refilled)
    then have "find (\<lambda>i. itemData ?cb (int i) = Some ?prev) [0..<length snapshot] = None"
      by (simp add: find_upt_None)
    then show ?thesis
      using ne False by (simp add: refresh_windows_def refilled_combo n Let_def)
  qed
  from native obtain k where k: "k < length snapshot" "is_native_game_title (lower (snd (snapshot ! k)))"
    by (auto simp: in_set_conv_nth)
  then have "?N k" by (simp add: itemText_refilled)
  with k have "find ?N [0..<length snapshot] \<noteq> None"
    by (auto simp: find_upt_None)
  then obtain i where i: "find ?N [0..<length snapshot] = Some i" by auto
  then have il: "i < length snapshot" and iN: "?N i" and first: "\<forall>j<i. \<not> ?N j"
    by (auto simp: find_upt_Some)
  have cnt: "count_items ?cb \<noteq> 0" using ne by (simp add: count_items_def)
  let ?mw2 = "setCurrentIndex now (int i) ?mw1"
  have s: "select_best_default_target now ?mw1 =
             ?mw2\<lparr>timer_model :=
                set_target_hwnd (hwnd_of_data (currentData (window_combo ?mw2))) (timer_model ?mw2)\<rparr>"
    using cnt i by (simp add: select_best_default_target_def n Let_def)
  have c: "window_combo ?mw2 = ?cb\<lparr>currentIndex := int i\<rparr>"
    using il by (simp add: setCurrentIndex_combo count_items_def)
  have d: "currentData (?cb\<lparr>currentIndex := int i\<rparr>) = Some (fst (snapshot ! i))"
    using il by (simp add: currentData_def itemData_def count_items_def split_beta)
  have "is_native_game_title (lower (snd (snapshot ! i)))"
    using iN il by (simp add: itemText_refilled)
  moreover have "\<forall>j<i. \<not> is_native_game_title (lower (snd (snapshot ! j)))"
    using first il by (simp add: itemText_refilled)
  moreover have "currentIndex (window_combo (refresh_windows now snapshot mw)) = int i"
    by (simp add: r s c)
  moreover have "target_hwnd (timer_model (refresh_windows now snapshot mw)) = fst (snapshot ! i)"
    using d by (simp add: r s c hwnd_of_data_Some set_target_hwnd_def)
  ultimately show ?thesis using il by blast
qed

text \<open>
  The window selected before, 300, has closed; the refresh selects the game's own window.
\<close>

theorem refresh_selects_native_game_window_witness:
  "(100, ''2004Scape Game'') \<in> set example_snapshot \<and>
   is_native_game_title (lower ''2004Scape Game'') \<and>
   hwnd_of_data (currentData (window_combo (example_window ''Notes - Mozilla Firefox'' 300)))
     \<notin> fst ` set example_snapshot \<and>
   currentIndex (window_combo (refresh_windows 5 example_snapshot
      (example_window ''Notes - Mozilla Firefox'' 300))) = 0 \<and>
   target_hwnd (timer_model (refresh_windows 5 example_snapshot
      (example_window ''Notes - Mozilla Firefox'' 300))) = 100"
proof -
  have p: "hwnd_of_data (currentData (window_combo
             (example_window ''Notes - Mozilla Firefox'' 300))) = 300"
    by (simp add: example_window_def currentData_def itemData_def count_items_def hwnd_of_data_def)
  have q: "300 \<notin> fst ` set example_snapshot"
    by (simp add: example_snapshot_def)
  have n: "\<exists>w\<in>set example_snapshot. is_native_game_title (lower (snd w))"
    using native_title_example by (simp add: example_snapshot_def)
  have l: "length example_snapshot = 2"
    and s0: "example_snapshot ! 0 = (100, ''2004Scape Game'')"
    and s1: "example_snapshot ! Suc 0 = (200, ''2004Scape Game - Google Chrome'')"
    by (simp_all add: example_snapshot_def)
  from refresh_selects_native_game_window [of example_snapshot
         "example_window ''Notes - Mozilla Firefox'' 300" 5] n p q
  obtain i where i: "i < 2" "is_native_game_title (lower (snd (example_snapshot ! i)))"
      "currentIndex (window_combo (refresh_windows 5 example_snapshot
         (example_window ''Notes - Mozilla Firefox'' 300))) = int i"
      "target_hwnd (timer_model (refresh_windows 5 example_snapshot
         (example_window ''Notes - Mozilla Firefox'' 300))) = fst (example_snapshot ! i)"
    by (auto simp: l)
  from i(1) have "i = 0 \<or> i = 1" by auto
  with i(2) native_title_example have "i = 0" by (auto simp: s1)
  have m: "(100, ''2004Scape Game'') \<in> set example_snapshot"
    by (simp add: example_snapshot_def)
  from \<open>i = 0\<close> i(3,4) show ?thesis
    using m p q native_title_example by (simp add: s0)
qed

text \<open>
  C1, as stated, fails. The snapshot holds the game's own window 100 and the browser tab
  200, and the tab was selected before the refresh. After the refresh the tab is still the
  target, and its title contains a browser brand.
\<close>

theorem marker_window_outranks_previous_counterexample:
  "(100, ''2004Scape Game'') \<in> set example_snapshot \<and>
   is_native_game_title (lower ''2004Scape Game'') \<and>
   hwnd_of_data (currentData (window_combo
      (example_window ''2004Scape Game - Google Chrome'' 200))) = 200 \<and>
   (200, ''2004Scape Game - Google Chrome'') \<in> set example_snapshot \<and>
   items (window_combo (refresh_windows 5 example_snapshot
      (example_window ''2004Scape Game - Google Chrome'' 200))) =
     [(''2004Scape Game'', 100), (''2004Scape Game - Google Chrome'', 200)] \<and>
   currentIndex (window_combo (refresh_windows 5 example_snapshot
      (example_window ''2004Scape Game - Google Chrome'' 200))) = 1 \<and>
   target_hwnd (timer_model (refresh_windows 5 example_snapshot
      (example_window ''2004Scape Game - Google Chrome'' 200))) = 200 \<and>
   \<not> is_native_game_title (lower ''2004Scape Game - Google Chrome'')"
proof -
  have r: "refresh_windows 5 example_snapshot (example_window ''2004Scape Game - Google Chrome'' 200)
           = \<lparr>window_combo = \<lparr>items = [(''2004Scape Game'', 100),
                                         (''2004Scape Game - Google Chrome'', 200)],
                               currentIndex = 1\<rparr>,
              target_changed_connected = True,
              preferred_window_hint = Some ''2004scape game'',
              sound_fired = False,
              timer_model = example_timer 200 5\<rparr>"
    by (simp add: refresh_windows_def example_snapshot_def example_window_def
          addItem_def clear_items_def currentData_def itemData_def count_items_def hwnd_of_data_def upt_two Let_def
          setCurrentIndex_def on_target_changed_def set_target_hwnd_def reset_to_full_def
          example_timer_def)
  have p: "hwnd_of_data (currentData (window_combo
             (example_window ''2004Scape Game - Google Chrome'' 200))) = 200"
    by (simp add: example_window_def currentData_def itemData_def count_items_def hwnd_of_data_def)
  show ?thesis
    using native_title_example p
    by (simp add: r) (simp add: example_snapshot_def example_timer_def)
qed

end
